theory Spec2Isabelle
  imports Complex_Main "HOL-Library.Sublist" "HOL-Library.Log_Nat" "HOL-Library.Word"
begin

section \<open>JavaScript numbers\<close>

text \<open>
  The dashboard computes with JavaScript numbers. A number is modelled as a rational
  or as \<open>NaN\<close>. A property that is absent from a payload reads as \<open>undefined\<close>,
  which the comparisons, \<open>*\<close>, \<open>Math.min\<close> and \<open>Math.max\<close> convert to \<open>NaN\<close>
  and which \<open>||\<close> treats as falsy, as it does \<open>NaN\<close>: in the operators below,
  \<open>NaN\<close> also stands for an absent numeric field. A decimal literal of the source
  denotes the same rational wherever it occurs, in the code and in the data.
  Comparisons of IEEE doubles are exact, so the threshold tests are the source's.
  The products of the heat radius and of the alert message are the exact ones (the
  rounding of doubles and the infinities are not modelled there); the fraud rate,
  whose printed digit depends on the rounding, is computed in double precision
  (section on double-precision arithmetic below).
\<close>

datatype jsnum = Num rat | NaN

text \<open>The relational operators \<open>>\<close> and \<open>>=\<close>: false as soon as an operand is \<open>NaN\<close>.\<close>

fun js_gt :: "jsnum \<Rightarrow> jsnum \<Rightarrow> bool" where
  "js_gt (Num a) (Num b) = (a > b)"
| "js_gt _ _ = False"

fun js_ge :: "jsnum \<Rightarrow> jsnum \<Rightarrow> bool" where
  "js_ge (Num a) (Num b) = (a \<ge> b)"
| "js_ge _ _ = False"

text \<open>\<open>a * b\<close>, \<open>Math.min(a, b)\<close> and \<open>Math.max(a, b)\<close>: \<open>NaN\<close> if an operand is.\<close>

fun js_mul :: "jsnum \<Rightarrow> jsnum \<Rightarrow> jsnum" where
  "js_mul (Num a) (Num b) = Num (a * b)"
| "js_mul _ _ = NaN"

fun Math_min :: "jsnum \<Rightarrow> jsnum \<Rightarrow> jsnum" where
  "Math_min (Num a) (Num b) = Num (min a b)"
| "Math_min _ _ = NaN"

fun Math_max :: "jsnum \<Rightarrow> jsnum \<Rightarrow> jsnum" where
  "Math_max (Num a) (Num b) = Num (max a b)"
| "Math_max _ _ = NaN"

text \<open>Truthiness of a number: \<open>0\<close> and \<open>NaN\<close> are falsy.\<close>

fun num_truthy :: "jsnum \<Rightarrow> bool" where
  "num_truthy (Num a) = (a \<noteq> 0)"
| "num_truthy NaN = False"

text \<open>\<open>a || b\<close> on numbers: the left operand when it is truthy, else the right one.\<close>

definition js_or :: "jsnum \<Rightarrow> jsnum \<Rightarrow> jsnum" where
  "js_or a b = (if num_truthy a then a else b)"

section \<open>Colour ladders\<close>

text \<open>
  \<^verbatim>\<open>
  const getHeatColor = (intensity) => {
    if (intensity >= 0.8) return '#FF0000'; // Red - Very High Risk
    if (intensity >= 0.6) return '#FF4500'; // Orange Red - High Risk
    if (intensity >= 0.4) return '#FF8C00'; // Dark Orange - Medium Risk
    if (intensity >= 0.2) return '#FFD700'; // Gold - Low-Medium Risk
    return '#FFFF00'; // Yellow - Low Risk
  };
  \<close>
\<close>

definition getHeatColor :: "jsnum \<Rightarrow> string" where
  "getHeatColor intensity =
     (if js_ge intensity (Num 0.8) then ''#FF0000''
      else if js_ge intensity (Num 0.6) then ''#FF4500''
      else if js_ge intensity (Num 0.4) then ''#FF8C00''
      else if js_ge intensity (Num 0.2) then ''#FFD700''
      else ''#FFFF00'')"

text \<open>
  \<^verbatim>\<open>
  const getRiskColor = (riskScore) => {
    if (riskScore >= 0.8) return '#F44336'; // Red - High Risk
    if (riskScore >= 0.5) return '#FF9800'; // Orange - Medium Risk
    if (riskScore >= 0.3) return '#FFC107'; // Yellow - Low-Medium Risk
    return '#4CAF50'; // Green - Low Risk
  };
  \<close>
\<close>

definition getRiskColor :: "jsnum \<Rightarrow> string" where
  "getRiskColor riskScore =
     (if js_ge riskScore (Num 0.8) then ''#F44336''
      else if js_ge riskScore (Num 0.5) then ''#FF9800''
      else if js_ge riskScore (Num 0.3) then ''#FFC107''
      else ''#4CAF50'')"

subsection \<open>The ladders as the specification words them\<close>

text \<open>
  The specification names five heat buckets and four risk buckets by colour. Each
  bucket is the set of values at or above its threshold that reach no higher bucket;
  a value that is not a number passes no threshold test and lands in the last bucket.
\<close>

datatype heat_bucket = Red | OrangeRed | DarkOrange | Gold | Yellow

definition spec_heat_bucket :: "jsnum \<Rightarrow> heat_bucket" where
  "spec_heat_bucket x =
     (case x of
        NaN \<Rightarrow> Yellow
      | Num r \<Rightarrow>
          if 0.8 \<le> r then Red
          else if 0.6 \<le> r \<and> r < 0.8 then OrangeRed
          else if 0.4 \<le> r \<and> r < 0.6 then DarkOrange
          else if 0.2 \<le> r \<and> r < 0.4 then Gold
          else Yellow)"

text \<open>The hexadecimal values are those the source's comments give the colour names.\<close>

fun heat_hex :: "heat_bucket \<Rightarrow> string" where
  "heat_hex Red = ''#FF0000''"
| "heat_hex OrangeRed = ''#FF4500''"
| "heat_hex DarkOrange = ''#FF8C00''"
| "heat_hex Gold = ''#FFD700''"
| "heat_hex Yellow = ''#FFFF00''"

datatype risk_bucket = RiskRed | RiskOrange | RiskYellow | RiskGreen

definition spec_risk_bucket :: "jsnum \<Rightarrow> risk_bucket" where
  "spec_risk_bucket x =
     (case x of
        NaN \<Rightarrow> RiskGreen
      | Num r \<Rightarrow>
          if 0.8 \<le> r then RiskRed
          else if 0.5 \<le> r \<and> r < 0.8 then RiskOrange
          else if 0.3 \<le> r \<and> r < 0.5 then RiskYellow
          else RiskGreen)"

fun risk_hex :: "risk_bucket \<Rightarrow> string" where
  "risk_hex RiskRed = ''#F44336''"
| "risk_hex RiskOrange = ''#FF9800''"
| "risk_hex RiskYellow = ''#FFC107''"
| "risk_hex RiskGreen = ''#4CAF50''"

section \<open>Heat map layer\<close>

text \<open>
  A hotspot aggregate of \<^verbatim>\<open>GET /api/heat-map-data\<close>:
  \<^verbatim>\<open>{ _id: {lat, lng, city, country}, fraud_count, avg_risk_score }\<close>.
  The numeric fields are numbers (an absent one reads as \<open>NaN\<close>, see above).
\<close>

record hotspot =
  lat :: jsnum
  lng :: jsnum
  city :: string
  country :: string
  fraud_count :: jsnum
  avg_risk_score :: jsnum

text \<open>
  \<^verbatim>\<open>
  const heatPoints = heatMapData.map(point => [
    point._id.lat,
    point._id.lng,
    Math.min(point.avg_risk_score || 0.5, 1.0) // Intensity based on risk score
  ]).filter(point =>
    !isNaN(point[0]) && !isNaN(point[1]) && point[0] !== null && point[1] !== null
  );
  \<close>
  On numbers the two comparisons with \<open>null\<close> are true.
\<close>

definition heatIntensity :: "hotspot \<Rightarrow> jsnum" where
  "heatIntensity point = Math_min (js_or (avg_risk_score point) (Num 0.5)) (Num 1.0)"

definition heatPoints :: "hotspot list \<Rightarrow> (jsnum \<times> jsnum \<times> jsnum) list" where
  "heatPoints heatMapData =
     filter (\<lambda>(p0, p1, _). p0 \<noteq> NaN \<and> p1 \<noteq> NaN)
       (map (\<lambda>point. (lat point, lng point, heatIntensity point)) heatMapData)"

text \<open>
  \<^verbatim>\<open>
  heatPoints.forEach(([lat, lng, intensity]) => {
    const color = getHeatColor(intensity);
    const radius = Math.max(intensity * 50, 10); // Scale radius by intensity
    const circle = L.circleMarker([lat, lng], { radius: radius, fillColor: color, ... });
  \<close>
  The layer is the list of circle markers, in the order of the points. The effect
  returns early, adding no layer, when the data or the points are empty: the list of
  markers is empty then.
\<close>

record circle =
  center_lat :: jsnum
  center_lng :: jsnum
  radius :: jsnum
  fillColor :: string

definition heatRadius :: "jsnum \<Rightarrow> jsnum" where
  "heatRadius intensity = Math_max (js_mul intensity (Num 50)) (Num 10)"

definition heatCircles :: "hotspot list \<Rightarrow> circle list" where
  "heatCircles heatMapData =
     map (\<lambda>(p0, p1, intensity).
            \<lparr>center_lat = p0, center_lng = p1,
             radius = heatRadius intensity, fillColor = getHeatColor intensity\<rparr>)
       (heatPoints heatMapData)"

text \<open>
  The threat level of the popup reads the aggregate's own score, with no default:
  \<^verbatim>\<open>
  const getThreatLevel = (riskScore) => {
    if (riskScore >= 0.8) return 'Critical';
    if (riskScore >= 0.6) return 'High';
    if (riskScore >= 0.4) return 'Medium';
    if (riskScore >= 0.2) return 'Low-Medium';
    return 'Low';
  };
  \<close>
  (the source's strings start with a pictogram each, left out here).
\<close>

definition getThreatLevel :: "jsnum \<Rightarrow> string" where
  "getThreatLevel riskScore =
     (if js_ge riskScore (Num 0.8) then ''Critical''
      else if js_ge riskScore (Num 0.6) then ''High''
      else if js_ge riskScore (Num 0.4) then ''Medium''
      else if js_ge riskScore (Num 0.2) then ''Low-Medium''
      else ''Low'')"

section \<open>JavaScript values\<close>

text \<open>
  A transaction's \<open>location\<close> is optional and is tested dynamically, so it is a
  JavaScript value: \<open>undefined\<close> (an absent property), or what JSON can carry. An
  object is the list of its own properties.
\<close>

datatype jsval =
    JUndefined
  | JNull
  | JBool bool
  | JNumber jsnum
  | JString string
  | JArray "jsval list"
  | JObject "(string \<times> jsval) list"

datatype js_error = TypeError | ToNumber_not_modelled | Exponent_notation_not_modelled

text \<open>Truthiness (\<open>ToBoolean\<close>): what \<open>&&\<close> tests.\<close>

fun truthy :: "jsval \<Rightarrow> bool" where
  "truthy JUndefined = False"
| "truthy JNull = False"
| "truthy (JBool b) = b"
| "truthy (JNumber n) = num_truthy n"
| "truthy (JString s) = (s \<noteq> [])"
| "truthy (JArray _) = True"
| "truthy (JObject _) = True"

fun js_typeof :: "jsval \<Rightarrow> string" where
  "js_typeof JUndefined = ''undefined''"
| "js_typeof JNull = ''object''"
| "js_typeof (JBool _) = ''boolean''"
| "js_typeof (JNumber _) = ''number''"
| "js_typeof (JString _) = ''string''"
| "js_typeof (JArray _) = ''object''"
| "js_typeof (JObject _) = ''object''"

text \<open>
  Reading the property \<open>lat\<close> or \<open>lng\<close> of a value: a \<open>TypeError\<close> on
  \<open>undefined\<close> and \<open>null\<close>, the property's value on an object that has it, and
  \<open>undefined\<close> otherwise (neither name is a property of a boolean, a number, a
  string or an array).
\<close>

fun get_prop :: "jsval \<Rightarrow> string \<Rightarrow> js_error + jsval" where
  "get_prop JUndefined k = Inl TypeError"
| "get_prop JNull k = Inl TypeError"
| "get_prop (JObject ps) k = (case map_of ps k of Some v \<Rightarrow> Inr v | None \<Rightarrow> Inr JUndefined)"
| "get_prop _ k = Inr JUndefined"

text \<open>
  The global \<open>isNaN(v)\<close> converts its argument to a number first. The conversion
  of strings, arrays and objects is not modelled: there the result is the error
  \<open>ToNumber_not_modelled\<close>, which is no behaviour of the program.
\<close>

fun js_isNaN :: "jsval \<Rightarrow> js_error + bool" where
  "js_isNaN JUndefined = Inr True"
| "js_isNaN JNull = Inr False"
| "js_isNaN (JBool _) = Inr False"
| "js_isNaN (JNumber n) = Inr (n = NaN)"
| "js_isNaN _ = Inl ToNumber_not_modelled"

text \<open>Sequencing of two evaluations: an error of the first is the result.\<close>

fun js_bind :: "js_error + 'a \<Rightarrow> ('a \<Rightarrow> js_error + 'b) \<Rightarrow> js_error + 'b" where
  "js_bind (Inl e) f = Inl e"
| "js_bind (Inr v) f = f v"

section \<open>Transactions and the transaction map\<close>

text \<open>
  A transaction event, with the fields the modelled code reads; the record is
  extensible, the other fields of the payload are its \<open>more\<close> part. The fields
  have the types of the backend contract: the identifier and the action are strings
  (so \<open>action.toUpperCase()\<close> is defined), the amount and the risk score numbers.
  The location, which is optional and which the map tests dynamically, is any value.
\<close>

record transaction =
  transaction_id :: string
  amount :: jsnum
  location :: jsval
  risk_score :: jsnum
  action :: string

text \<open>
  \<^verbatim>\<open>
  const validTransactions = transactions.filter(t =>
    t.location &&
    typeof t.location.lat === 'number' &&
    typeof t.location.lng === 'number' &&
    !isNaN(t.location.lat) &&
    !isNaN(t.location.lng)
  );
  \<close>
  \<open>&&\<close> evaluates its right operand only when the left one is truthy; the
  predicate follows the chain operand by operand and returns the first error.
\<close>

definition hasValidLocation :: "'a transaction_scheme \<Rightarrow> js_error + bool" where
  "hasValidLocation t =
     (if \<not> truthy (location t) then Inr False
      else js_bind (get_prop (location t) ''lat'') (\<lambda>lat1.
        if js_typeof lat1 \<noteq> ''number'' then Inr False
        else js_bind (get_prop (location t) ''lng'') (\<lambda>lng1.
          if js_typeof lng1 \<noteq> ''number'' then Inr False
          else js_bind (get_prop (location t) ''lat'') (\<lambda>lat2.
            js_bind (js_isNaN lat2) (\<lambda>nan_lat.
              if nan_lat then Inr False
              else js_bind (get_prop (location t) ''lng'') (\<lambda>lng2.
                js_bind (js_isNaN lng2) (\<lambda>nan_lng. Inr (\<not> nan_lng))))))))"

text \<open>\<open>Array.prototype.filter\<close> with a predicate that may throw: the first error ends it.\<close>

fun filter_js :: "('a \<Rightarrow> js_error + bool) \<Rightarrow> 'a list \<Rightarrow> js_error + 'a list" where
  "filter_js p [] = Inr []"
| "filter_js p (x # xs) =
     js_bind (p x) (\<lambda>keep.
       js_bind (filter_js p xs) (\<lambda>ys. Inr (if keep then x # ys else ys)))"

definition validTransactions :: "'a transaction_scheme list \<Rightarrow> js_error + 'a transaction_scheme list" where
  "validTransactions transactions = filter_js hasValidLocation transactions"

subsection \<open>Valid coordinates as the specification words them\<close>

text \<open>
  A transaction has valid numeric coordinates when its location is an object whose
  \<open>lat\<close> and \<open>lng\<close> are both numbers other than \<open>NaN\<close>.
\<close>

fun numeric_coordinate :: "jsval option \<Rightarrow> bool" where
  "numeric_coordinate (Some (JNumber (Num _))) = True"
| "numeric_coordinate _ = False"

definition spec_valid_coordinates :: "'a transaction_scheme \<Rightarrow> bool" where
  "spec_valid_coordinates t =
     (case location t of
        JObject ps \<Rightarrow> numeric_coordinate (map_of ps ''lat'') \<and> numeric_coordinate (map_of ps ''lng'')
      | _ \<Rightarrow> False)"


section \<open>Double-precision arithmetic\<close>

text \<open>
  The fraud rate is printed with one decimal, and which decimal is printed depends on
  the rounding of its quotient and product: here the arithmetic of the source is
  modelled as it is, in IEEE 754 binary64. A finite double is the rational it
  denotes. An arithmetic operation returns the exact result rounded to the nearest
  double, a tie going to the double with the even significand: with \<open>e\<close> the
  binary exponent of the exact result (at least \<open>-1022\<close>, below which doubles are
  subnormal), the doubles around it are the integer multiples of \<open>2^(e - 52)\<close>.
  Results of magnitude \<open>2^1024\<close> or more would overflow. That does not arise
  here: the operands are counts, the sum of two counts is below \<open>2^54\<close>, its
  quotient by a count that is not 0 is no larger, and the product with 100 stays
  below \<open>10^21\<close> (lemma \<open>fraud_rate_range\<close>).
\<close>

definition binary_exponent :: "rat \<Rightarrow> int" where
  "binary_exponent x =
     (case quotient_of x of (p, q) \<Rightarrow>
        let e0 = bitlen p - bitlen q in if 2 powi e0 \<le> x then e0 else e0 - 1)"

definition round_half_even :: "rat \<Rightarrow> int" where
  "round_half_even y =
     (let n = \<lfloor>y\<rfloor>; r = y - of_int n
      in if r < 1 / 2 then n else if 1 / 2 < r then n + 1 else if even n then n else n + 1)"

definition round_binary64 :: "rat \<Rightarrow> rat" where
  "round_binary64 x =
     (if x = 0 then 0
      else let ulp = 2 powi (max (binary_exponent \<bar>x\<bar>) (- 1022) - 52)
           in sgn x * (of_int (round_half_even (\<bar>x\<bar> / ulp)) * ulp))"




section \<open>Number formatting\<close>










section \<open>Dashboard\<close>

text \<open>
  The fraud statistics are three counts of transactions. A count is a natural
  number below \<open>2^53\<close>: an integer that a double holds exactly, as the payload
  delivers it.
\<close>

type_synonym count = "53 word"


record fraud_stats =
  total_transactions :: count
  flagged_transactions :: count
  blocked_transactions :: count

record 'a dashboard_data =
  recent_transactions :: "'a transaction_scheme list"
  fraud_stats :: fraud_stats

text \<open>
  An alert entry. The message is a template literal; it is kept as the list of its
  pieces, each naming the conversion the source applies to it:
  \<open>Upper s\<close> is \<open>s.toUpperCase()\<close>, \<open>Shown n\<close> the default rendering of the
  number \<open>n\<close> and \<open>Fixed1 n\<close> is \<open>n.toFixed(1)\<close>.
\<close>

datatype piece = Lit string | Upper string | Shown jsnum | Fixed1 jsnum

record alert =
  alert_id :: int
  alert_timestamp :: string
  message :: "piece list"
  alert_type :: string
  alert_transaction_id :: string

text \<open>The component's state: the three \<open>useState\<close> cells that hold data.\<close>

record 'a dashboard =
  dashboardData :: "'a dashboard_data"
  alerts :: "alert list"
  loading :: bool

definition initial :: "'a dashboard" where
  "initial =
     \<lparr>dashboardData =
        \<lparr>recent_transactions = [],
         fraud_stats = \<lparr>total_transactions = 0, flagged_transactions = 0, blocked_transactions = 0\<rparr>\<rparr>,
      alerts = [],
      loading = True\<rparr>"

text \<open>
  The handler of \<open>transaction_update\<close>. \<open>now\<close> is what \<open>Date.now()\<close> returns
  (milliseconds) and \<open>stamp\<close> what \<open>new Date().toISOString()\<close> returns when the
  handler runs.
  \<^verbatim>\<open>
  newSocket.on('transaction_update', (transaction) => {
    setDashboardData(prev => ({
      ...prev,
      recent_transactions: [transaction, ...prev.recent_transactions.slice(0, 49)]
    }));
    if (transaction.action === 'block' || transaction.risk_score > 0.7) {
      const alert = {
        id: Date.now(),
        timestamp: new Date().toISOString(),
        message: `${transaction.action.toUpperCase()}: Transaction ${transaction.transaction_id}
                  - $${transaction.amount} - Risk Score: ${(transaction.risk_score * 100).toFixed(1)}%`,
        type: transaction.action,
        transaction_id: transaction.transaction_id
      };
      setAlerts(prev => [alert, ...prev.slice(0, 19)]); // Keep last 20 alerts
    }
  });
  \<close>
\<close>

definition new_alert :: "int \<Rightarrow> string \<Rightarrow> 'a transaction_scheme \<Rightarrow> alert" where
  "new_alert now stamp t =
     \<lparr>alert_id = now,
      alert_timestamp = stamp,
      message =
        [Upper (action t), Lit '': Transaction '', Lit (transaction_id t), Lit '' - $'',
         Shown (amount t), Lit '' - Risk Score: '',
         Fixed1 (js_mul (risk_score t) (Num 100)), Lit ''%''],
      alert_type = action t,
      alert_transaction_id = transaction_id t\<rparr>"

definition transaction_update ::
  "int \<Rightarrow> string \<Rightarrow> 'a transaction_scheme \<Rightarrow> 'a dashboard \<Rightarrow> 'a dashboard" where
  "transaction_update now stamp t s =
     (let s1 = s\<lparr>dashboardData :=
                  (dashboardData s)\<lparr>recent_transactions :=
                     t # take 49 (recent_transactions (dashboardData s))\<rparr>\<rparr>
      in if action t = ''block'' \<or> js_gt (risk_score t) (Num 0.7)
         then s1\<lparr>alerts := new_alert now stamp t # take 19 (alerts s1)\<rparr>
         else s1)"

text \<open>
  \<open>loadDashboardData\<close>, at the time the request settles: \<open>Some data\<close> is the
  response, \<open>None\<close> a rejected request (logged; the data stay as they are).
  \<^verbatim>\<open>
  const loadDashboardData = async () => {
    try {
      setLoading(true);
      const data = await apiService.getDashboardData();
      setDashboardData(data);
    } catch (error) {
      console.error('Failed to load dashboard data:', error);
    } finally {
      setLoading(false);
    }
  };
  \<close>
\<close>

definition loadDashboardData :: "'a dashboard_data option \<Rightarrow> 'a dashboard \<Rightarrow> 'a dashboard" where
  "loadDashboardData response s =
     (case response of
        Some data \<Rightarrow> s\<lparr>dashboardData := data, loading := False\<rparr>
      | None \<Rightarrow> s\<lparr>loading := False\<rparr>)"

text \<open>
  \<^verbatim>\<open>
  onClearAlert={(id) => {
    setAlerts(prev => prev.filter(alert => alert.id !== id));
  }}
  \<close>
\<close>

definition onClearAlert :: "int \<Rightarrow> 'a dashboard \<Rightarrow> 'a dashboard" where
  "onClearAlert ident s = s\<lparr>alerts := filter (\<lambda>a. alert_id a \<noteq> ident) (alerts s)\<rparr>"



text \<open>
  \<open>AlertPanel\<close> chooses the icon of an alert from its type; the three pictograms
  are named here.
  \<^verbatim>\<open>
  const getAlertIcon = (type) => {
    switch (type) {
      case 'block': return (no entry sign);
      case 'flag': return (warning sign);
      default: return (bell);
    }
  };
  \<close>
\<close>

datatype alert_icon = NoEntrySign | WarningSign | Bell

definition getAlertIcon :: "string \<Rightarrow> alert_icon" where
  "getAlertIcon ty =
     (if ty = ''block'' then NoEntrySign else if ty = ''flag'' then WarningSign else Bell)"

subsection \<open>Runs of the dashboard\<close>

text \<open>
  What happens to the mounted component, one event at a time (the event loop runs
  each handler to completion): a live transaction arrives, a load settles, the user
  dismisses an alert.
\<close>

datatype 'a event =
    Transaction_update int string "'a transaction_scheme"
  | Load_settled "'a dashboard_data option"
  | Clear_alert int

fun step :: "'a dashboard \<Rightarrow> 'a event \<Rightarrow> 'a dashboard" where
  "step s (Transaction_update now stamp t) = transaction_update now stamp t s"
| "step s (Load_settled response) = loadDashboardData response s"
| "step s (Clear_alert ident) = onClearAlert ident s"

definition run :: "'a dashboard \<Rightarrow> 'a event list \<Rightarrow> 'a dashboard" where
  "run s evs = foldl step s evs"

subsection \<open>Arrivals\<close>

text \<open>
  An arrival is a live transaction together with the two clock readings of its
  handler: the event it is, and the alert the handler builds for it.
\<close>

definition arrival_event :: "int \<times> string \<times> 'a transaction_scheme \<Rightarrow> 'a event" where
  "arrival_event a = (case a of (now, stamp, t) \<Rightarrow> Transaction_update now stamp t)"

definition arrival_alert :: "int \<times> string \<times> 'a transaction_scheme \<Rightarrow> alert" where
  "arrival_alert a = (case a of (now, stamp, t) \<Rightarrow> new_alert now stamp t)"

subsection \<open>The alert policy as the specification words it\<close>

definition spec_alert_policy :: "'a transaction_scheme \<Rightarrow> bool" where
  "spec_alert_policy t =
     (action t = ''block'' \<or> (case risk_score t of Num r \<Rightarrow> r > 0.7 | NaN \<Rightarrow> False))"

section \<open>Sample data\<close>

text \<open>Concrete inputs, on which the theorems below are instantiated.\<close>

definition sample_tx :: "string \<Rightarrow> string \<Rightarrow> rat \<Rightarrow> transaction" where
  "sample_tx tid act r =
     \<lparr>transaction_id = tid, amount = Num 250, location = JUndefined,
      risk_score = Num r, action = act\<rparr>"

definition sample_burst :: "(int \<times> string \<times> transaction) list" where
  "sample_burst =
     map (\<lambda>k. (1700000000000 + int k, ''2023-11-14T22:13:20Z'', sample_tx ''T-1'' ''block'' 0.95))
       [0..<25]"


definition sample_refresh :: "nat \<Rightarrow> unit dashboard_data" where
  "sample_refresh n =
     \<lparr>recent_transactions = replicate n (sample_tx ''T-2'' ''approve'' 0.1),
      fraud_stats = \<lparr>total_transactions = of_nat n, flagged_transactions = 0,
                     blocked_transactions = 0\<rparr>\<rparr>"

definition sample_located :: "jsval \<Rightarrow> transaction" where
  "sample_located loc = (sample_tx ''T-3'' ''approve'' 0.1)\<lparr>location := loc\<rparr>"

definition sample_hotspot :: "rat \<Rightarrow> hotspot" where
  "sample_hotspot avg =
     \<lparr>lat = Num 40.7128, lng = Num (- 74.006), city = ''New York'', country = ''US'',
      fraud_count = Num 3, avg_risk_score = Num avg\<rparr>"

section \<open>Properties\<close>

subsection \<open>Colour ladders\<close>

lemma getHeatColor_spec: "getHeatColor x = heat_hex (spec_heat_bucket x)"
  by (cases x) (simp_all add: getHeatColor_def spec_heat_bucket_def)

lemma getRiskColor_spec: "getRiskColor x = risk_hex (spec_risk_bucket x)"
  by (cases x) (simp_all add: getRiskColor_def spec_risk_bucket_def)

text \<open>
  Claim C8. Both colour ladders match the specified thresholds for every input value,
  a number or \<open>NaN\<close>: the heat colour is red from 0.8 (the boundary included),
  orange-red from 0.6, dark orange from 0.4, gold from 0.2 and yellow below; the risk
  colour is \<open>#F44336\<close> from 0.8, \<open>#FF9800\<close> from 0.5, \<open>#FFC107\<close> from 0.3 and
  \<open>#4CAF50\<close> below. The specification's three sample intensities 0.85, 0.15 and
  0.8 give red, yellow and red.
\<close>

theorem color_ladders_match_thresholds:
  "getHeatColor x = heat_hex (spec_heat_bucket x) \<and>
   getRiskColor x = risk_hex (spec_risk_bucket x) \<and>
   getHeatColor (Num 0.85) = ''#FF0000'' \<and>
   getHeatColor (Num 0.15) = ''#FFFF00'' \<and>
   getHeatColor (Num 0.8) = ''#FF0000''"
  by (simp add: getHeatColor_spec getRiskColor_spec spec_heat_bucket_def)

theorem color_ladders_witness:
  "getHeatColor (Num 0.6) = ''#FF4500'' \<and> getRiskColor (Num 0.5) = ''#FF9800'' \<and>
   getHeatColor NaN = ''#FFFF00'' \<and> getRiskColor NaN = ''#4CAF50''"
  using color_ladders_match_thresholds [of "Num 0.6"]
    color_ladders_match_thresholds [of "Num 0.5"]
    color_ladders_match_thresholds [of NaN]
  by (simp add: spec_heat_bucket_def spec_risk_bucket_def)

subsection \<open>The live handler and runs\<close>

lemma alerts_transaction_update:
  "alerts (transaction_update now stamp t s) =
     (if spec_alert_policy t then new_alert now stamp t # take 19 (alerts s) else alerts s)"
  by (cases "risk_score t") (simp_all add: transaction_update_def spec_alert_policy_def Let_def)

lemma recent_transaction_update:
  "recent_transactions (dashboardData (transaction_update now stamp t s)) =
     t # take 49 (recent_transactions (dashboardData s))"
  by (simp add: transaction_update_def Let_def)

lemma alerts_loadDashboardData: "alerts (loadDashboardData response s) = alerts s"
  by (cases response) (simp_all add: loadDashboardData_def)

lemma recent_loadDashboardData:
  "recent_transactions (dashboardData (loadDashboardData (Some d) s)) = recent_transactions d"
  by (simp add: loadDashboardData_def)

lemma alerts_onClearAlert:
  "alerts (onClearAlert ident s) = filter (\<lambda>a. alert_id a \<noteq> ident) (alerts s)"
  by (simp add: onClearAlert_def)

lemma dashboardData_onClearAlert: "dashboardData (onClearAlert ident s) = dashboardData s"
  by (simp add: onClearAlert_def)

lemma run_Nil: "run s [] = s"
  by (simp add: run_def)

lemma run_snoc: "run s (evs @ [e]) = step (run s evs) e"
  by (simp add: run_def)

lemma alerts_arrivals:
  assumes "length (alerts s) \<le> 20"
  shows "alerts (run s (map arrival_event ts)) =
     take 20 (rev (map arrival_alert (filter (\<lambda>a. spec_alert_policy (snd (snd a))) ts)) @ alerts s)"
proof (induction ts rule: rev_induct)
  case Nil
  from assms show ?case by (simp add: run_Nil)
next
  case (snoc a ts)
  let ?old = "rev (map arrival_alert (filter (\<lambda>a. spec_alert_policy (snd (snd a))) ts)) @ alerts s"
  obtain now stamp t where a: "a = (now, stamp, t)" by (cases a)
  have st: "alerts (run s (map arrival_event (ts @ [a]))) =
      alerts (transaction_update now stamp t (run s (map arrival_event ts)))"
    by (simp add: run_snoc a arrival_event_def)
  show ?case
  proof (cases "spec_alert_policy t")
    case True
    have "alerts (run s (map arrival_event (ts @ [a]))) =
        new_alert now stamp t # take 19 (take 20 ?old)"
      by (simp only: st alerts_transaction_update True if_True snoc.IH)
    also have "\<dots> = new_alert now stamp t # take 19 ?old"
      by (simp only: take_take) simp
    also have "\<dots> = take 20 (new_alert now stamp t # ?old)"
      by (simp add: take_Cons')
    also have "\<dots> = take 20 (rev (map arrival_alert
        (filter (\<lambda>a. spec_alert_policy (snd (snd a))) (ts @ [a]))) @ alerts s)"
      by (simp add: a True arrival_alert_def)
    finally show ?thesis .
  next
    case False
    have "alerts (run s (map arrival_event (ts @ [a]))) = take 20 ?old"
      by (simp only: st alerts_transaction_update False if_False snoc.IH)
    then show ?thesis
      by (simp add: a False)
  qed
qed

text \<open>
  Claim C1. For every transaction event delivered to the handler, whatever the state
  and the clock: when the event's action is \<open>block\<close> or its risk score is strictly
  above 0.7, the alert list afterwards is the one new alert of this event in front of
  the (truncated) old list; otherwise the alert list is the old one, unchanged. A
  risk score that is not a number creates no alert by itself. Over a sequence of
  deliveries from the initial state, the alert list is made of the alerts of exactly
  the events that meet the policy, one for each, the most recent first (the first 20
  of them).
\<close>

theorem alert_created_iff_policy:
  "alerts (transaction_update now stamp t s) =
     (if spec_alert_policy t then [new_alert now stamp t] @ take 19 (alerts s) else alerts s) \<and>
   alert_transaction_id (new_alert now stamp t) = transaction_id t \<and>
   alerts (run initial (map arrival_event ts)) =
     take 20 (rev (map arrival_alert (filter (\<lambda>a. spec_alert_policy (snd (snd a))) ts)))"
proof (intro conjI)
  show "alerts (transaction_update now stamp t s) =
     (if spec_alert_policy t then [new_alert now stamp t] @ take 19 (alerts s) else alerts s)"
    by (simp add: alerts_transaction_update)
  show "alert_transaction_id (new_alert now stamp t) = transaction_id t"
    by (simp add: new_alert_def)
  show "alerts (run initial (map arrival_event ts)) =
     take 20 (rev (map arrival_alert (filter (\<lambda>a. spec_alert_policy (snd (snd a))) ts)))"
    using alerts_arrivals [of initial ts] by (simp add: initial_def)
qed

theorem alert_created_iff_policy_witness:
  "alerts (transaction_update 1000 ''s'' (sample_tx ''A'' ''block'' 0.1) initial) =
     [new_alert 1000 ''s'' (sample_tx ''A'' ''block'' 0.1)] \<and>
   alerts (transaction_update 1000 ''s'' (sample_tx ''B'' ''approve'' 0.71) initial) =
     [new_alert 1000 ''s'' (sample_tx ''B'' ''approve'' 0.71)] \<and>
   alerts (transaction_update 1000 ''s'' (sample_tx ''C'' ''flag'' 0.7) initial) = [] \<and>
   alerts (transaction_update 1000 ''s'' ((sample_tx ''D'' ''flag'' 0)\<lparr>risk_score := NaN\<rparr>) initial) = [] \<and>
   map alert_transaction_id
     (alerts (run initial (map arrival_event
        [(1000, ''s'', sample_tx ''A'' ''block'' 0.1), (1001, ''s'', sample_tx ''C'' ''flag'' 0.7),
         (1002, ''s'', sample_tx ''B'' ''approve'' 0.71)]))) = [''B'', ''A'']"
proof -
  let ?ts = "[(1000, ''s'', sample_tx ''A'' ''block'' 0.1), (1001, ''s'', sample_tx ''C'' ''flag'' 0.7),
              (1002, ''s'', sample_tx ''B'' ''approve'' 0.71)]"
  have pol: "spec_alert_policy (sample_tx ''A'' ''block'' 0.1)"
    "spec_alert_policy (sample_tx ''B'' ''approve'' 0.71)"
    "\<not> spec_alert_policy (sample_tx ''C'' ''flag'' 0.7)"
    "\<not> spec_alert_policy ((sample_tx ''D'' ''flag'' 0)\<lparr>risk_score := NaN\<rparr>)"
    by (simp_all add: spec_alert_policy_def sample_tx_def)
  have none: "alerts (initial :: unit dashboard) = []"
    by (simp add: initial_def)
  have ids: "alert_transaction_id (arrival_alert (k, z, sample_tx tid act r)) = tid" for k z tid act r
    by (simp add: arrival_alert_def new_alert_def sample_tx_def)
  show ?thesis
    using alert_created_iff_policy [of 1000 "''s''" "sample_tx ''A'' ''block'' 0.1" initial ?ts]
      alert_created_iff_policy [of 1000 "''s''" "sample_tx ''B'' ''approve'' 0.71" initial ?ts]
      alert_created_iff_policy [of 1000 "''s''" "sample_tx ''C'' ''flag'' 0.7" initial ?ts]
      alert_created_iff_policy
        [of 1000 "''s''" "(sample_tx ''D'' ''flag'' 0)\<lparr>risk_score := NaN\<rparr>" initial ?ts]
      pol none
    by (simp add: ids)
qed

subsection \<open>Transaction history\<close>

lemma recent_run_le:
  assumes "\<forall>d. Load_settled (Some d) \<in> set evs \<longrightarrow> length (recent_transactions d) \<le> 50"
  shows "length (recent_transactions (dashboardData (run initial evs))) \<le> 50"
  using assms
proof (induction evs rule: rev_induct)
  case Nil
  show ?case by (simp add: run_Nil initial_def)
next
  case (snoc e evs)
  then have IH: "length (recent_transactions (dashboardData (run initial evs))) \<le> 50"
    by simp
  show ?case
  proof (cases e)
    case (Transaction_update now stamp t)
    then show ?thesis by (simp add: run_snoc recent_transaction_update)
  next
    case (Load_settled response)
    show ?thesis
    proof (cases response)
      case None
      with Load_settled IH show ?thesis by (simp add: run_snoc loadDashboardData_def)
    next
      case (Some d)
      with Load_settled snoc.prems have "length (recent_transactions d) \<le> 50" by simp
      with Load_settled Some show ?thesis by (simp add: run_snoc recent_loadDashboardData)
    qed
  next
    case (Clear_alert ident)
    with IH show ?thesis by (simp add: run_snoc dashboardData_onClearAlert)
  qed
qed

text \<open>
  Claim C2, as stated, fails: a full refresh stores the list the backend returns as
  it is, so a response of 51 records leaves a history of 51 entries.
\<close>

theorem refresh_exceeds_history_cap:
  "length (recent_transactions (dashboardData
      (run initial [Load_settled (Some (sample_refresh 51))]))) = 51"
  by (simp add: run_def loadDashboardData_def sample_refresh_def)

text \<open>
  Claim C2, amended. After every live-event prepend, from any state, the history is
  the new record in front of the old history, cut to its first 50 entries, so its
  length is at most 50. A full refresh replaces the history by the list the backend
  returned, whatever its length. Hence the history holds at most 50 entries after
  every sequence of operations in which each refresh returned at most 50 records.
\<close>

theorem history_bounded_by_prepend:
  "recent_transactions (dashboardData (transaction_update now stamp t s)) =
     take 50 (t # recent_transactions (dashboardData s)) \<and>
   length (recent_transactions (dashboardData (transaction_update now stamp t s))) \<le> 50 \<and>
   recent_transactions (dashboardData (loadDashboardData (Some d) s)) = recent_transactions d \<and>
   ((\<forall>d. Load_settled (Some d) \<in> set evs \<longrightarrow> length (recent_transactions d) \<le> 50) \<longrightarrow>
      length (recent_transactions (dashboardData (run initial evs))) \<le> 50)"
  by (simp add: recent_transaction_update recent_loadDashboardData recent_run_le take_Cons')

theorem history_bounded_by_prepend_witness:
  "length (recent_transactions (dashboardData
      (transaction_update 1000 ''s'' (sample_tx ''A'' ''approve'' 0.1)
         (loadDashboardData (Some (sample_refresh 51)) initial)))) = 50 \<and>
   length (recent_transactions (dashboardData
      (run initial [Load_settled (Some (sample_refresh 50)),
                    Transaction_update 1000 ''s'' (sample_tx ''A'' ''approve'' 0.1)]))) \<le> 50"
  using history_bounded_by_prepend
      [of 1000 "''s''" "sample_tx ''A'' ''approve'' 0.1"
          "loadDashboardData (Some (sample_refresh 51)) initial" "sample_refresh 51"
          "[Load_settled (Some (sample_refresh 50)),
            Transaction_update 1000 ''s'' (sample_tx ''A'' ''approve'' 0.1)]"]
  by (simp add: loadDashboardData_def sample_refresh_def)

subsection \<open>Alert list\<close>

lemma alerts_step_le:
  assumes "length (alerts s) \<le> 20"
  shows "length (alerts (step s e)) \<le> 20"
proof (cases e)
  case (Transaction_update now stamp t)
  with assms show ?thesis by (simp add: alerts_transaction_update)
next
  case (Load_settled response)
  with assms show ?thesis by (simp add: alerts_loadDashboardData)
next
  case (Clear_alert ident)
  have "length (filter (\<lambda>a. alert_id a \<noteq> ident) (alerts s)) \<le> 20"
    by (rule le_trans [OF length_filter_le assms])
  with Clear_alert show ?thesis by (simp add: alerts_onClearAlert)
qed

lemma alerts_run_le: "length (alerts (run initial evs)) \<le> 20"
proof (induction evs rule: rev_induct)
  case Nil
  show ?case by (simp add: run_Nil initial_def)
next
  case (snoc e evs)
  then show ?case by (simp add: run_snoc alerts_step_le)
qed

lemma alerts_burst:
  assumes "\<forall>a \<in> set ts. spec_alert_policy (snd (snd a))" and "length (alerts s) \<le> 20"
  shows "alerts (run s (map arrival_event ts)) = take 20 (rev (map arrival_alert ts) @ alerts s)"
  using assms
proof (induction ts rule: rev_induct)
  case Nil
  then show ?case by (simp add: run_Nil)
next
  case (snoc a ts)
  obtain now stamp t where a: "a = (now, stamp, t)" by (cases a)
  from snoc.prems have pol: "spec_alert_policy t"
    and rest: "\<forall>a \<in> set ts. spec_alert_policy (snd (snd a))"
    by (simp_all add: a)
  have "alerts (run s (map arrival_event (ts @ [a]))) =
        new_alert now stamp t # take 19 (alerts (run s (map arrival_event ts)))"
    by (simp add: run_snoc a arrival_event_def alerts_transaction_update pol)
  also have "\<dots> = new_alert now stamp t # take 19 (take 20 (rev (map arrival_alert ts) @ alerts s))"
    by (simp add: snoc.IH [OF rest snoc.prems(2)])
  also have "\<dots> = new_alert now stamp t # take 19 (rev (map arrival_alert ts) @ alerts s)"
    by (simp only: take_take) simp
  also have "\<dots> = take 20 (new_alert now stamp t # rev (map arrival_alert ts) @ alerts s)"
    by (simp add: take_Cons')
  also have "\<dots> = take 20 (rev (map arrival_alert (ts @ [a])) @ alerts s)"
    by (simp add: a arrival_alert_def)
  finally show ?case .
qed

lemma alerts_burst_25:
  assumes "length ts = 25" and "\<forall>a \<in> set ts. spec_alert_policy (snd (snd a))"
  shows "alerts (run initial (map arrival_event ts)) = rev (map arrival_alert (drop 5 ts))"
proof -
  have "alerts (run initial (map arrival_event ts)) = take 20 (rev (map arrival_alert ts))"
    using alerts_burst [OF assms(2), of initial] by (simp add: initial_def)
  also have "\<dots> = rev (drop 5 (map arrival_alert ts))"
    using assms(1) by (simp add: take_rev)
  finally show ?thesis by (simp add: drop_map)
qed

text \<open>
  Claim C3. Starting from the empty alert list, the alert list holds at most 20
  entries after every sequence of events (live transactions, settled loads and
  dismissals). After 25 alert-triggering transactions in a row, it holds exactly the
  alerts of the last 20 of them, the most recent first: the alerts of the first 5 are
  gone.
\<close>

theorem alert_list_capped_at_20:
  "length (alerts (run initial evs)) \<le> 20 \<and>
   (length ts = 25 \<and> (\<forall>a \<in> set ts. spec_alert_policy (snd (snd a))) \<longrightarrow>
      alerts (run initial (map arrival_event ts)) = rev (map arrival_alert (drop 5 ts)) \<and>
      length (alerts (run initial (map arrival_event ts))) = 20)"
  by (simp add: alerts_run_le alerts_burst_25)

theorem alert_list_capped_at_20_witness:
  "length (alerts (run initial [Clear_alert 7 :: unit event])) \<le> 20 \<and>
   alerts (run initial (map arrival_event sample_burst)) =
     rev (map arrival_alert (drop 5 sample_burst)) \<and>
   map alert_id (alerts (run initial (map arrival_event sample_burst))) =
     rev (map (\<lambda>k. 1700000000000 + int k) [5..<25])"
proof -
  have len: "length sample_burst = 25"
    by (simp add: sample_burst_def)
  have pol: "\<forall>a \<in> set sample_burst. spec_alert_policy (snd (snd a))"
    by (simp add: sample_burst_def spec_alert_policy_def sample_tx_def)
  have ids: "map alert_id (rev (map arrival_alert (drop 5 sample_burst))) =
      rev (map (\<lambda>k. 1700000000000 + int k) [5..<25])"
    by (simp add: sample_burst_def drop_map rev_map arrival_alert_def new_alert_def)
  show ?thesis
    using alert_list_capped_at_20 [of "[Clear_alert 7 :: unit event]" sample_burst] len pol ids
    by simp
qed

subsection \<open>Dismissal\<close>

lemma count_list_filter:
  "count_list (filter P xs) a = (if P a then count_list xs a else 0)"
  by (induction xs) auto

lemma filter_unique:
  assumes "f a = X" and "X \<notin> f ` set pre" and "X \<notin> f ` set post"
  shows "filter (\<lambda>b. f b \<noteq> X) (pre @ a # post) = pre @ post"
proof -
  have "filter (\<lambda>b. f b \<noteq> X) pre = pre"
    using assms(2) by (auto simp: filter_id_conv)
  moreover have "filter (\<lambda>b. f b \<noteq> X) post = post"
    using assms(3) by (auto simp: filter_id_conv)
  ultimately show ?thesis using assms(1) by simp
qed

lemma length_filter_count:
  "length (filter (\<lambda>b. f b \<noteq> X) xs) = length xs - count_list (map f xs) X"
proof -
  have "length (filter (\<lambda>b. f b \<noteq> X) xs) + count_list (map f xs) X = length xs"
    by (induction xs) auto
  then show ?thesis by simp
qed

text \<open>
  Claim C6, as stated, fails on an alert list the handler itself builds: two
  alert-triggering events handled in the same millisecond leave two different
  entries with one identifier, and one dismissal of it removes two entries, not one.
\<close>

theorem dismissal_removes_two_entries:
  "alerts (transaction_update 1000 ''s'' (sample_tx ''B'' ''block'' 0.9)
            (transaction_update 1000 ''s'' (sample_tx ''A'' ''block'' 0.9) initial)) =
     [new_alert 1000 ''s'' (sample_tx ''B'' ''block'' 0.9),
      new_alert 1000 ''s'' (sample_tx ''A'' ''block'' 0.9)] \<and>
   new_alert 1000 ''s'' (sample_tx ''B'' ''block'' 0.9) \<noteq>
     new_alert 1000 ''s'' (sample_tx ''A'' ''block'' 0.9) \<and>
   alerts (onClearAlert 1000
            (transaction_update 1000 ''s'' (sample_tx ''B'' ''block'' 0.9)
              (transaction_update 1000 ''s'' (sample_tx ''A'' ''block'' 0.9) initial))) = []"
  by (simp add: alerts_onClearAlert alerts_transaction_update spec_alert_policy_def
      sample_tx_def initial_def new_alert_def)

text \<open>
  Claim C6, amended. For every alert list and every identifier \<open>X\<close>, dismissing
  \<open>X\<close> removes exactly the entries whose identifier is \<open>X\<close>, all of them: the
  result is a subsequence of the list (nothing is added, modified or reordered), no
  entry with identifier \<open>X\<close> remains, and every entry with another identifier
  stays as often as it occurred. When exactly one entry has the identifier \<open>X\<close>,
  exactly that entry is removed. The rest of the state is untouched.
\<close>

theorem dismissal_removes_entries_of_identifier:
  "subseq (alerts (onClearAlert X s)) (alerts s) \<and>
   X \<notin> alert_id ` set (alerts (onClearAlert X s)) \<and>
   (\<forall>a. alert_id a \<noteq> X \<longrightarrow>
      count_list (alerts (onClearAlert X s)) a = count_list (alerts s) a) \<and>
   length (alerts (onClearAlert X s)) =
     length (alerts s) - count_list (map alert_id (alerts s)) X \<and>
   (alerts s = pre @ a # post \<and> alert_id a = X \<and>
    X \<notin> alert_id ` set pre \<and> X \<notin> alert_id ` set post
      \<longrightarrow> alerts (onClearAlert X s) = pre @ post) \<and>
   dashboardData (onClearAlert X s) = dashboardData s"
proof (intro conjI)
  show "subseq (alerts (onClearAlert X s)) (alerts s)"
    by (simp add: alerts_onClearAlert)
  show "X \<notin> alert_id ` set (alerts (onClearAlert X s))"
    by (auto simp: alerts_onClearAlert)
  show "\<forall>a. alert_id a \<noteq> X \<longrightarrow>
      count_list (alerts (onClearAlert X s)) a = count_list (alerts s) a"
    by (simp add: alerts_onClearAlert count_list_filter)
  show "length (alerts (onClearAlert X s)) =
      length (alerts s) - count_list (map alert_id (alerts s)) X"
    by (simp add: alerts_onClearAlert length_filter_count)
  show "alerts s = pre @ a # post \<and> alert_id a = X \<and>
      X \<notin> alert_id ` set pre \<and> X \<notin> alert_id ` set post
      \<longrightarrow> alerts (onClearAlert X s) = pre @ post"
    using filter_unique [of alert_id a X pre post] by (simp add: alerts_onClearAlert)
  show "dashboardData (onClearAlert X s) = dashboardData s"
    by (rule dashboardData_onClearAlert)
qed

theorem dismissal_removes_entries_of_identifier_witness:
  "alerts (onClearAlert 1700000000002 (run initial (map arrival_event (take 4 sample_burst)))) =
     [arrival_alert (sample_burst ! 3), arrival_alert (sample_burst ! 1),
      arrival_alert (sample_burst ! 0)]"
proof -
  let ?s = "run initial (map arrival_event (take 4 sample_burst))"
  have four: "take 4 sample_burst =
      [sample_burst ! 0, sample_burst ! 1, sample_burst ! 2, sample_burst ! 3]"
    by (simp add: sample_burst_def take_map upt_conv_Cons)
  have pol: "spec_alert_policy (snd (snd (sample_burst ! k)))" if "k < 25" for k
    using that by (simp add: sample_burst_def spec_alert_policy_def sample_tx_def)
  have ids: "alert_id (arrival_alert (sample_burst ! k)) = 1700000000000 + int k" if "k < 25" for k
    using that by (simp add: sample_burst_def arrival_alert_def new_alert_def)
  have "\<forall>a \<in> set (take 4 sample_burst). spec_alert_policy (snd (snd a))"
    by (simp add: four pol)
  then have "alerts ?s = take 20 (rev (map arrival_alert (take 4 sample_burst)))"
    using alerts_burst [of "take 4 sample_burst" initial] by (simp add: initial_def)
  then have al: "alerts ?s =
      [arrival_alert (sample_burst ! 3)] @ arrival_alert (sample_burst ! 2) #
      [arrival_alert (sample_burst ! 1), arrival_alert (sample_burst ! 0)]"
    by (simp add: four initial_def)
  show ?thesis
    using dismissal_removes_entries_of_identifier
      [of "1700000000002" ?s "[arrival_alert (sample_burst ! 3)]" "arrival_alert (sample_burst ! 2)"
          "[arrival_alert (sample_burst ! 1), arrival_alert (sample_burst ! 0)]"]
      al
    by (simp add: ids)
qed

subsection \<open>Alert identifiers\<close>

text \<open>
  Claim C10. The identifier of an alert is the reading of the millisecond clock when
  its event is handled. When two alert-triggering events are handled at the same
  reading, both alerts get that reading as identifier and stand at the front of the
  list; one dismissal of that identifier removes both (from the initial state it
  leaves the list empty).
\<close>

theorem same_millisecond_alerts_share_identifier:
  assumes "spec_alert_policy t1" and "spec_alert_policy t2"
  shows "alerts (transaction_update now stamp2 t2 (transaction_update now stamp1 t1 s)) =
           new_alert now stamp2 t2 # new_alert now stamp1 t1 # take 18 (alerts s) \<and>
         alert_id (new_alert now stamp1 t1) = now \<and>
         alert_id (new_alert now stamp2 t2) = now \<and>
         alerts (onClearAlert now
                  (transaction_update now stamp2 t2 (transaction_update now stamp1 t1 s))) =
           filter (\<lambda>a. alert_id a \<noteq> now) (take 18 (alerts s)) \<and>
         alerts (onClearAlert now
                  (transaction_update now stamp2 t2 (transaction_update now stamp1 t1 initial))) = []"
proof -
  have two: "alerts (transaction_update now stamp2 t2 (transaction_update now stamp1 t1 s')) =
      new_alert now stamp2 t2 # new_alert now stamp1 t1 # take 18 (alerts s')"
    for s' :: "'a dashboard"
    using assms by (simp add: alerts_transaction_update take_Cons')
  have ids: "alert_id (new_alert now stamp1 t1) = now" "alert_id (new_alert now stamp2 t2) = now"
    by (simp_all add: new_alert_def)
  show ?thesis
    by (simp add: alerts_onClearAlert two ids initial_def)
qed

theorem same_millisecond_alerts_witness:
  "map alert_transaction_id
     (alerts (transaction_update 1000 ''s2'' (sample_tx ''B'' ''approve'' 0.8)
               (transaction_update 1000 ''s1'' (sample_tx ''A'' ''block'' 0.2) initial))) =
     [''B'', ''A''] \<and>
   map alert_id
     (alerts (transaction_update 1000 ''s2'' (sample_tx ''B'' ''approve'' 0.8)
               (transaction_update 1000 ''s1'' (sample_tx ''A'' ''block'' 0.2) initial))) =
     [1000, 1000] \<and>
   alerts (onClearAlert 1000
            (transaction_update 1000 ''s2'' (sample_tx ''B'' ''approve'' 0.8)
              (transaction_update 1000 ''s1'' (sample_tx ''A'' ''block'' 0.2) initial))) = []"
proof -
  have p1: "spec_alert_policy (sample_tx ''A'' ''block'' 0.2)"
    by (simp add: spec_alert_policy_def sample_tx_def)
  have p2: "spec_alert_policy (sample_tx ''B'' ''approve'' 0.8)"
    by (simp add: spec_alert_policy_def sample_tx_def)
  show ?thesis
    using same_millisecond_alerts_share_identifier [OF p1 p2, of 1000 "''s2''" "''s1''" initial]
    by (simp add: initial_def new_alert_def sample_tx_def)
qed

subsection \<open>Alert classification\<close>

lemma alerts_step_origin:
  assumes "a \<in> set (alerts (step s e))"
  shows "a \<in> set (alerts s) \<or>
         (\<exists>now stamp t. e = Transaction_update now stamp t \<and> spec_alert_policy t \<and>
            a = new_alert now stamp t)"
proof (cases e)
  case (Transaction_update now stamp t)
  with assms show ?thesis
    by (auto simp: alerts_transaction_update split: if_splits dest: in_set_takeD)
next
  case (Load_settled response)
  with assms show ?thesis by (simp add: alerts_loadDashboardData)
next
  case (Clear_alert ident)
  with assms show ?thesis by (simp add: alerts_onClearAlert)
qed

lemma alerts_run_origin:
  assumes "a \<in> set (alerts (run initial evs))"
  shows "\<exists>now stamp t. Transaction_update now stamp t \<in> set evs \<and> spec_alert_policy t \<and>
           a = new_alert now stamp t"
  using assms
proof (induction evs rule: rev_induct)
  case Nil
  then show ?case by (simp add: run_Nil initial_def)
next
  case (snoc e evs)
  from snoc.prems have "a \<in> set (alerts (step (run initial evs) e))"
    by (simp add: run_snoc)
  then consider (old) "a \<in> set (alerts (run initial evs))"
    | (new) now stamp t where "e = Transaction_update now stamp t" "spec_alert_policy t"
        "a = new_alert now stamp t"
    using alerts_step_origin by blast
  then show ?case
  proof cases
    case old
    with snoc.IH show ?thesis by auto
  next
    case new
    then show ?thesis by auto
  qed
qed

text \<open>
  Claim C7, as stated, fails: the alert of an event with action \<open>approve\<close> and risk
  score 0.9 has the type \<open>approve\<close>, which is none of \<open>block\<close>, \<open>flag\<close>,
  \<open>other\<close>.
\<close>

theorem approve_alert_type_outside_classes:
  "map alert_type (alerts (transaction_update 1000 ''s'' (sample_tx ''A'' ''approve'' 0.9) initial)) =
     [''approve''] \<and>
   ''approve'' \<notin> {''block'', ''flag'', ''other''}"
  by (simp add: alerts_transaction_update spec_alert_policy_def sample_tx_def initial_def
      new_alert_def)

text \<open>
  Claim C7, amended. The type of an alert is the action of the event it was created
  for, as the event carried it: every entry of the alert list, after every run from
  the initial state, is the alert of a delivered event that met the alert policy, and
  its type is that event's action. So the type is one of \<open>approve\<close>, \<open>flag\<close>,
  \<open>block\<close> when every delivered event carries one of these three actions, and an
  alert created for an event with action \<open>approve\<close> and a risk score above 0.7
  has the type \<open>approve\<close>.
\<close>

theorem alert_type_is_event_action:
  "alert_type (new_alert now stamp t) = action t \<and>
   (\<forall>a \<in> set (alerts (run initial evs)).
      \<exists>now stamp t. Transaction_update now stamp t \<in> set evs \<and> spec_alert_policy t \<and>
        a = new_alert now stamp t \<and> alert_type a = action t) \<and>
   ((\<forall>now stamp t. Transaction_update now stamp t \<in> set evs \<longrightarrow>
        action t \<in> {''approve'', ''flag'', ''block''}) \<longrightarrow>
    (\<forall>a \<in> set (alerts (run initial evs)). alert_type a \<in> {''approve'', ''flag'', ''block''})) \<and>
   (action u = ''approve'' \<and> js_gt (risk_score u) (Num 0.7) \<longrightarrow>
      alerts (transaction_update now stamp u s) = new_alert now stamp u # take 19 (alerts s) \<and>
      alert_type (new_alert now stamp u) = ''approve'')"
proof (intro conjI)
  show ty: "alert_type (new_alert now stamp t) = action t" for now stamp and t :: "'a transaction_scheme"
    by (simp add: new_alert_def)
  show origin: "\<forall>a \<in> set (alerts (run initial evs)).
      \<exists>now stamp t. Transaction_update now stamp t \<in> set evs \<and> spec_alert_policy t \<and>
        a = new_alert now stamp t \<and> alert_type a = action t"
    for evs :: "'b event list"
    using alerts_run_origin by (fastforce simp: new_alert_def)
  show "(\<forall>now stamp t. Transaction_update now stamp t \<in> set evs \<longrightarrow>
        action t \<in> {''approve'', ''flag'', ''block''}) \<longrightarrow>
    (\<forall>a \<in> set (alerts (run initial evs)). alert_type a \<in> {''approve'', ''flag'', ''block''})"
  proof (intro impI ballI)
    fix a
    assume acts: "\<forall>now stamp t. Transaction_update now stamp t \<in> set evs \<longrightarrow>
        action t \<in> {''approve'', ''flag'', ''block''}"
      and "a \<in> set (alerts (run initial evs))"
    with origin obtain now stamp t where "Transaction_update now stamp t \<in> set evs"
      "alert_type a = action t" by blast
    with acts show "alert_type a \<in> {''approve'', ''flag'', ''block''}" by metis
  qed
  show "action u = ''approve'' \<and> js_gt (risk_score u) (Num 0.7) \<longrightarrow>
      alerts (transaction_update now stamp u s) = new_alert now stamp u # take 19 (alerts s) \<and>
      alert_type (new_alert now stamp u) = ''approve''"
    by (cases "risk_score u")
      (simp_all add: alerts_transaction_update spec_alert_policy_def new_alert_def)
qed

theorem alert_type_is_event_action_witness:
  "map alert_type
     (alerts (run initial
        [Transaction_update 1000 ''s'' (sample_tx ''A'' ''approve'' 0.9),
         Transaction_update 1001 ''s'' (sample_tx ''B'' ''flag'' 0.75)])) =
     [''flag'', ''approve''] \<and>
   getAlertIcon ''approve'' = Bell"
  using alert_type_is_event_action
    [of 1001 "''s''" "sample_tx ''B'' ''flag'' 0.75"
        "[Transaction_update 1000 ''s'' (sample_tx ''A'' ''approve'' 0.9),
          Transaction_update 1001 ''s'' (sample_tx ''B'' ''flag'' 0.75)]"
        "sample_tx ''A'' ''approve'' 0.9" initial]
  by (simp add: run_def alerts_transaction_update spec_alert_policy_def sample_tx_def
      initial_def new_alert_def getAlertIcon_def)

subsection \<open>Transaction map\<close>

lemma hasValidLocation_spec: "hasValidLocation t = Inr (spec_valid_coordinates t)"
proof (cases "location t")
  case (JObject ps)
  show ?thesis
  proof (cases "map_of ps ''lat''")
    case None
    with JObject show ?thesis
      by (simp add: hasValidLocation_def spec_valid_coordinates_def)
  next
    case lat: (Some v)
    show ?thesis
    proof (cases "map_of ps ''lng''")
      case None
      with JObject lat show ?thesis
        by (cases v) (simp_all add: hasValidLocation_def spec_valid_coordinates_def)
    next
      case lng: (Some w)
      show ?thesis
      proof (cases v)
        case vn: (JNumber a)
        show ?thesis
        proof (cases w)
          case wn: (JNumber b)
          with JObject lat lng vn show ?thesis
            by (cases a; cases b) (simp_all add: hasValidLocation_def spec_valid_coordinates_def)
        qed (use JObject lat lng vn in
              \<open>simp_all add: hasValidLocation_def spec_valid_coordinates_def\<close>)
      qed (use JObject lat lng in
            \<open>simp_all add: hasValidLocation_def spec_valid_coordinates_def\<close>)
    qed
  qed
qed (simp_all add: hasValidLocation_def spec_valid_coordinates_def)

lemma filter_js_total:
  assumes "\<And>x. p x = Inr (q x)"
  shows "filter_js p xs = Inr (filter q xs)"
  by (induction xs) (simp_all add: assms)

text \<open>
  Claim C9. The filter of the transaction map never raises an error, and its output
  is the input list restricted, in order, to the transactions whose location is an
  object with a numeric \<open>lat\<close> and a numeric \<open>lng\<close>, neither of them \<open>NaN\<close>.
  A transaction is dropped, with no error, when its \<open>lat\<close> or \<open>lng\<close> is \<open>NaN\<close>,
  is missing, or is not a number, and when it has no location.
\<close>

theorem validTransactions_keeps_numeric_coordinates:
  "validTransactions ts = Inr (filter spec_valid_coordinates ts) \<and>
   hasValidLocation t = Inr (spec_valid_coordinates t) \<and>
   (location t = JObject ps \<and>
    (map_of ps ''lat'' = Some (JNumber NaN) \<or> map_of ps ''lng'' = Some (JNumber NaN))
      \<longrightarrow> hasValidLocation t = Inr False) \<and>
   (location t = JObject ps \<and> (map_of ps ''lat'' = None \<or> map_of ps ''lng'' = None)
      \<longrightarrow> hasValidLocation t = Inr False) \<and>
   (location t = JObject ps \<and>
    (map_of ps ''lat'' = Some v \<or> map_of ps ''lng'' = Some v) \<and> js_typeof v \<noteq> ''number''
      \<longrightarrow> hasValidLocation t = Inr False) \<and>
   (location t = JUndefined \<or> location t = JNull \<longrightarrow> hasValidLocation t = Inr False)"
proof (intro conjI)
  show "validTransactions ts = Inr (filter spec_valid_coordinates ts)"
    unfolding validTransactions_def by (rule filter_js_total) (rule hasValidLocation_spec)
  show "hasValidLocation t = Inr (spec_valid_coordinates t)"
    by (rule hasValidLocation_spec)
  show "location t = JObject ps \<and>
    (map_of ps ''lat'' = Some (JNumber NaN) \<or> map_of ps ''lng'' = Some (JNumber NaN))
      \<longrightarrow> hasValidLocation t = Inr False"
    by (auto simp: hasValidLocation_spec spec_valid_coordinates_def
        elim: numeric_coordinate.elims)
  show "location t = JObject ps \<and> (map_of ps ''lat'' = None \<or> map_of ps ''lng'' = None)
      \<longrightarrow> hasValidLocation t = Inr False"
    by (auto simp: hasValidLocation_spec spec_valid_coordinates_def)
  show "location t = JObject ps \<and>
    (map_of ps ''lat'' = Some v \<or> map_of ps ''lng'' = Some v) \<and> js_typeof v \<noteq> ''number''
      \<longrightarrow> hasValidLocation t = Inr False"
    by (cases v) (auto simp: hasValidLocation_spec spec_valid_coordinates_def)
  show "location t = JUndefined \<or> location t = JNull \<longrightarrow> hasValidLocation t = Inr False"
    by (auto simp: hasValidLocation_spec spec_valid_coordinates_def)
qed

theorem validTransactions_witness:
  "validTransactions
     [sample_located JUndefined,
      sample_located (JObject [(''lat'', JNumber (Num 40.7)), (''lng'', JNumber (Num (- 74)))]),
      sample_located (JObject [(''lat'', JNumber NaN), (''lng'', JNumber (Num (- 74)))]),
      sample_located (JObject [(''lat'', JNumber (Num 40.7))]),
      sample_located (JObject [(''lat'', JString ''40.7''), (''lng'', JNumber (Num (- 74)))]),
      sample_located (JString ''New York'')] =
   Inr [sample_located (JObject [(''lat'', JNumber (Num 40.7)), (''lng'', JNumber (Num (- 74)))])] \<and>
   hasValidLocation (sample_located (JObject [(''lat'', JNumber NaN), (''lng'', JNumber (Num (- 74)))])) =
     Inr False"
  using validTransactions_keeps_numeric_coordinates
    [of "[sample_located JUndefined,
      sample_located (JObject [(''lat'', JNumber (Num 40.7)), (''lng'', JNumber (Num (- 74)))]),
      sample_located (JObject [(''lat'', JNumber NaN), (''lng'', JNumber (Num (- 74)))]),
      sample_located (JObject [(''lat'', JNumber (Num 40.7))]),
      sample_located (JObject [(''lat'', JString ''40.7''), (''lng'', JNumber (Num (- 74)))]),
      sample_located (JString ''New York'')]"
      "sample_located (JObject [(''lat'', JNumber NaN), (''lng'', JNumber (Num (- 74)))])"
      "[(''lat'', JNumber NaN), (''lng'', JNumber (Num (- 74)))]" JNull]
  by (simp add: spec_valid_coordinates_def sample_located_def sample_tx_def)

subsection \<open>Fraud rate\<close>

lemma binary_exponent_bounds:
  assumes "0 < x"
  shows "2 powi binary_exponent x \<le> x \<and> x < 2 powi (binary_exponent x + 1)"
proof -
  obtain p q where pq: "quotient_of x = (p, q)" by (cases "quotient_of x")
  then have q: "0 < q" and x: "x = of_int p / of_int q"
    by (simp_all add: quotient_of_denom_pos quotient_of_div)
  with assms have p: "0 < p"
    by (simp add: zero_less_divide_iff)
  define e0 where "e0 = bitlen p - bitlen q"
  have bp: "1 \<le> bitlen p" and bq: "1 \<le> bitlen q"
    using p q bitlen_eq_zero_iff [of p] bitlen_eq_zero_iff [of q] bitlen_nonneg [of p]
      bitlen_nonneg [of q] by linarith+
  have plo: "(2::rat) powi (bitlen p - 1) \<le> of_int p" and phi: "of_int p < (2::rat) powi bitlen p"
  proof -
    from bitlen_bounds [OF p] have "2 ^ nat (bitlen p - 1) \<le> p" "p < 2 ^ nat (bitlen p)" by simp_all
    then have "(of_int (2 ^ nat (bitlen p - 1)) :: rat) \<le> of_int p"
      "(of_int p :: rat) < of_int (2 ^ nat (bitlen p))"
      by (simp_all only: of_int_le_iff of_int_less_iff)
    then show "(2::rat) powi (bitlen p - 1) \<le> of_int p" "of_int p < (2::rat) powi bitlen p"
      using bp by (simp_all add: power_int_def)
  qed
  have qlo: "(2::rat) powi (bitlen q - 1) \<le> of_int q" and qhi: "of_int q < (2::rat) powi bitlen q"
  proof -
    from bitlen_bounds [OF q] have "2 ^ nat (bitlen q - 1) \<le> q" "q < 2 ^ nat (bitlen q)" by simp_all
    then have "(of_int (2 ^ nat (bitlen q - 1)) :: rat) \<le> of_int q"
      "(of_int q :: rat) < of_int (2 ^ nat (bitlen q))"
      by (simp_all only: of_int_le_iff of_int_less_iff)
    then show "(2::rat) powi (bitlen q - 1) \<le> of_int q" "of_int q < (2::rat) powi bitlen q"
      using bq by (simp_all add: power_int_def)
  qed
  have qpos: "(0::rat) < of_int q" using q by simp
  have lower: "(2::rat) powi (e0 - 1) < x"
  proof -
    have "(2::rat) powi (e0 - 1) = 2 powi (bitlen p - 1) / 2 powi bitlen q"
      by (simp add: e0_def power_int_diff)
    also have "\<dots> \<le> of_int p / 2 powi bitlen q"
      using plo by (intro divide_right_mono) simp_all
    also have "\<dots> < of_int p / of_int q"
      using qhi qpos p by (intro divide_strict_left_mono) simp_all
    finally show ?thesis by (simp add: x)
  qed
  have upper: "x < (2::rat) powi (e0 + 1)"
  proof -
    have "x = of_int p / of_int q" by (rule x)
    also have "\<dots> < 2 powi bitlen p / of_int q"
      using phi qpos by (intro divide_strict_right_mono) simp_all
    also have "\<dots> \<le> 2 powi bitlen p / 2 powi (bitlen q - 1)"
      using qlo by (intro frac_le) simp_all
    also have "\<dots> = 2 powi (bitlen p - (bitlen q - 1))"
      by (rule power_int_diff [symmetric]) simp
    also have "bitlen p - (bitlen q - 1) = e0 + 1"
      by (simp add: e0_def)
    finally show ?thesis .
  qed
  show ?thesis
  proof (cases "(2::rat) powi e0 \<le> x")
    case True
    then have "binary_exponent x = e0"
      by (simp add: binary_exponent_def pq e0_def Let_def)
    with True upper show ?thesis by simp
  next
    case False
    then have "binary_exponent x = e0 - 1"
      by (simp add: binary_exponent_def pq e0_def Let_def)
    with False lower show ?thesis by simp
  qed
qed


lemma round_half_even_nonneg: "0 \<le> y \<Longrightarrow> 0 \<le> round_half_even y"
  by (auto simp: round_half_even_def Let_def)


text \<open>
  \<open>round_binary64\<close> returns a double nearest to its argument: an integer multiple
  \<open>n\<close> of the unit in the last place with \<open>n\<close> at most \<open>2^53\<close>, at most half a
  unit away, and with \<open>n\<close> even when it is exactly half a unit away.
\<close>

lemma round_half_even_spec:
  "\<bar>of_int (round_half_even y) - y\<bar> \<le> 1 / 2 \<and>
   (\<bar>of_int (round_half_even y) - y\<bar> = 1 / 2 \<longrightarrow> even (round_half_even y))"
proof -
  define n where "n = \<lfloor>y\<rfloor>"
  have fl: "of_int n \<le> y" "y < of_int n + 1" unfolding n_def by linarith+
  have rhe: "round_half_even y =
      (if y - of_int n < 1 / 2 then n else if 1 / 2 < y - of_int n then n + 1
       else if even n then n else n + 1)"
    by (simp only: round_half_even_def Let_def n_def)
  consider (lo) "y - of_int n < 1 / 2" | (hi) "1 / 2 < y - of_int n"
    | (tie) "y - of_int n = 1 / 2" by linarith
  then show ?thesis
  proof cases
    case lo
    then have "round_half_even y = n" by (simp only: rhe if_True)
    moreover have "\<bar>of_int n - y\<bar> < 1 / 2" using lo fl by linarith
    ultimately show ?thesis by simp
  next
    case hi
    then have "round_half_even y = n + 1" by (simp add: rhe)
    moreover have "\<bar>of_int n + 1 - y\<bar> < 1 / 2" using hi fl by linarith
    ultimately show ?thesis by simp
  next
    case tie
    then have r: "round_half_even y = (if even n then n else n + 1)"
      by (simp add: rhe)
    have "\<bar>of_int n - y\<bar> = 1 / 2" "\<bar>of_int n + 1 - y\<bar> = 1 / 2" using tie by linarith+
    then show ?thesis by (simp add: r)
  qed
qed

lemma round_binary64_nearest:
  assumes "0 < x"
  shows "\<exists>n. round_binary64 x = of_int n * 2 powi (max (binary_exponent x) (- 1022) - 52) \<and>
           \<bar>of_int n - x / 2 powi (max (binary_exponent x) (- 1022) - 52)\<bar> \<le> 1 / 2 \<and>
           (\<bar>of_int n - x / 2 powi (max (binary_exponent x) (- 1022) - 52)\<bar> = 1 / 2 \<longrightarrow> even n) \<and>
           0 \<le> n \<and> n \<le> 2 ^ 53"
proof -
  define ulp :: rat where "ulp = 2 powi (max (binary_exponent x) (- 1022) - 52)"
  define n where "n = round_half_even (x / ulp)"
  have ulp: "0 < ulp" by (simp add: ulp_def)
  have rd: "round_binary64 x = of_int n * ulp"
    using assms by (simp add: round_binary64_def ulp_def n_def Let_def)
  have n0: "0 \<le> n" using assms ulp by (simp add: n_def round_half_even_nonneg)
  have "x < 2 powi (binary_exponent x + 1)" using binary_exponent_bounds [OF assms] by simp
  also have "\<dots> \<le> 2 powi (max (binary_exponent x) (- 1022) + 1)"
    by (rule power_int_increasing) simp_all
  also have "\<dots> = 2 ^ 53 * ulp"
    by (simp add: ulp_def power_int_diff power_int_add)
  finally have xu: "x / ulp < 2 ^ 53" using ulp by (simp add: divide_less_eq)
  have spec: "\<bar>of_int n - x / ulp\<bar> \<le> 1 / 2"
    "\<bar>of_int n - x / ulp\<bar> = 1 / 2 \<longrightarrow> even n"
    using round_half_even_spec [of "x / ulp"] unfolding n_def by blast+
  from spec(1) xu have "of_int n < (2::rat) ^ 53 + 1" by linarith
  then have "of_int n < (of_int (2 ^ 53 + 1) :: rat)" by simp
  then have "n < 2 ^ 53 + 1" by (simp only: of_int_less_iff)
  then have n53: "n \<le> 2 ^ 53" by simp
  show ?thesis
    using rd n0 n53 spec
    unfolding ulp_def [symmetric] by blast
qed



















subsection \<open>Heat intensity\<close>

text \<open>
  Claim C4 does not hold of the code at an average risk score of 0: the score is
  falsy, so \<open>||\<close> replaces it by 0.5. The hotspot is drawn with intensity 0.5,
  radius 25 and the colour of the medium bucket, where the claim gives intensity 0
  (radius 10, yellow); its popup, which reads the score itself, says \<open>Low\<close>.
\<close>

theorem zero_score_hotspot_drawn_at_default:
  "heatCircles [sample_hotspot 0] =
     [\<lparr>center_lat = Num 40.7128, center_lng = Num (- 74.006), radius = Num 25,
       fillColor = ''#FF8C00''\<rparr>] \<and>
   heatIntensity (sample_hotspot 0) = Num 0.5 \<and>
   getThreatLevel (avg_risk_score (sample_hotspot 0)) = ''Low''"
  by (simp add: heatCircles_def heatPoints_def heatIntensity_def js_or_def heatRadius_def
      getHeatColor_def getThreatLevel_def sample_hotspot_def)

text \<open>
  For every hotspot whose average risk score is a number other than 0, the intensity
  is \<open>min(avg_risk_score, 1)\<close> and the radius is \<open>max(intensity * 50, 10)\<close>.
  A score that is 0 or \<open>NaN\<close> gets the default intensity 0.5.
\<close>

theorem heat_intensity_of_nonzero_score:
  "(avg_risk_score p = Num r \<and> r \<noteq> 0 \<longrightarrow>
      heatIntensity p = Num (min r 1) \<and>
      heatRadius (heatIntensity p) = Num (max (min r 1 * 50) 10)) \<and>
   (avg_risk_score p = NaN \<or> avg_risk_score p = Num 0 \<longrightarrow> heatIntensity p = Num 0.5)"
  by (auto simp: heatIntensity_def js_or_def heatRadius_def)

theorem heat_intensity_witness:
  "heatIntensity (sample_hotspot 0.85) = Num 0.85 \<and>
   heatRadius (heatIntensity (sample_hotspot 0.85)) = Num 42.5 \<and>
   heatIntensity (sample_hotspot 1.7) = Num 1 \<and>
   heatRadius (heatIntensity (sample_hotspot 0.1)) = Num 10"
  using heat_intensity_of_nonzero_score [of "sample_hotspot 0.85" "0.85"]
    heat_intensity_of_nonzero_score [of "sample_hotspot 1.7" "1.7"]
    heat_intensity_of_nonzero_score [of "sample_hotspot 0.1" "0.1"]
  by (simp add: sample_hotspot_def heatRadius_def)

end
